theory Spec2Isabelle
  imports Main
begin

section \<open>The users backend of \<^verbatim>\<open>backend/main.go\<close>\<close>

text \<open>
  The program is one Go file: \<^verbatim>\<open>main\<close> loads the configuration, opens the database,
  creates the table, registers seven routes on a gorilla/mux router and serves them.
  Each handler runs one or two SQL statements and writes a JSON response.

  The embedding passes the state explicitly. The database is a value of type \<open>DB\<close>
  that every handler takes and returns; the response under construction is a
  \<open>ResponseWriter\<close>; \<^verbatim>\<open>log.Fatal\<close>, which prints its message and calls
  \<^verbatim>\<open>os.Exit(1)\<close>, is the outcome \<open>Exit\<close>: nothing after it runs, no response
  is sent and the process is gone.
\<close>

subsection \<open>The User struct and JSON values\<close>

text \<open>
  \<^verbatim>\<open>type User struct { Id int `json:"id"`; Name string `json:"name"`; Email string `json:"email"` }\<close>.
  The field \<^verbatim>\<open>Id\<close> is called \<open>Id_fld\<close> here, since \<open>Id\<close> is the identity relation of HOL.
\<close>

record User =
  Id_fld :: int
  Name :: string
  Email :: string

definition zero_User :: User where
  \<comment> \<open>\<^verbatim>\<open>var user User\<close>: Go's zero value.\<close>
  "zero_User = \<lparr>Id_fld = 0, Name = [], Email = []\<rparr>"

text \<open>
  A JSON text, already parsed. \<open>JInt\<close> is a number written as an integer literal,
  \<open>JFrac\<close> any other number literal (a fraction or an exponent): the program stores
  numbers only in the \<^verbatim>\<open>int\<close> field, which accepts integer literals alone.
\<close>

datatype json =
    JNull
  | JBool bool
  | JInt int
  | JFrac
  | JStr string
  | JArr "json list"
  | JObj "(string \<times> json) list"

text \<open>
  A request body is either not a JSON text at all (empty, truncated, garbage) or begins
  with a JSON text; \<^verbatim>\<open>Decoder.Decode\<close> reads one value and leaves the rest.
\<close>

datatype body = Malformed | Json json

definition encode_User :: "User \<Rightarrow> json" where
  \<comment> \<open>What \<^verbatim>\<open>json.Encoder.Encode\<close> writes for a \<^verbatim>\<open>User\<close>, by its struct tags.\<close>
  "encode_User u = JObj [(''id'', JInt (Id_fld u)), (''name'', JStr (Name u)), (''email'', JStr (Email u))]"

subsection \<open>Decoding a body into a User (\<^verbatim>\<open>encoding/json\<close>)\<close>

text \<open>
  \<^verbatim>\<open>json.NewDecoder(r.Body).Decode(&user)\<close> takes the struct as it stands and returns it
  updated, together with an error or none. The decoder first scans the whole value: a
  body that is not a JSON text gives a syntax error and stores nothing. For an object it
  stores member after member; a key selects a field by its tag, ignoring case; unknown
  keys and \<^verbatim>\<open>null\<close> values are skipped; a value of the wrong type is skipped too, the
  first such error is remembered, and decoding goes on with the next member. A value
  that is neither an object nor \<^verbatim>\<open>null\<close> cannot be stored in a struct.
\<close>

datatype decode_error = SyntaxError | UnmarshalTypeError string

definition lower :: "char \<Rightarrow> char" where
  \<comment> \<open>ASCII \<^verbatim>\<open>A\<close>..\<^verbatim>\<open>Z\<close> (65..90) to \<^verbatim>\<open>a\<close>..\<^verbatim>\<open>z\<close>.\<close>
  "lower c = (let n = (of_char c :: nat) in if 65 \<le> n \<and> n \<le> 90 then char_of (n + 32) else c)"

definition saveError :: "decode_error \<Rightarrow> decode_error option \<Rightarrow> decode_error option" where
  \<comment> \<open>Only the first error is kept.\<close>
  "saveError e saved = (case saved of None \<Rightarrow> Some e | Some e0 \<Rightarrow> Some e0)"

definition fits_int64 :: "int \<Rightarrow> bool" where
  "fits_int64 n \<longleftrightarrow> - (2 ^ 63) \<le> n \<and> n < 2 ^ 63"

definition store_member :: "User \<times> decode_error option \<Rightarrow> string \<times> json \<Rightarrow> User \<times> decode_error option" where
  "store_member st m =
     (let u = fst st; saved = snd st; key = map lower (fst m); v = snd m in
      if v = JNull then (u, saved)
      else if key = ''id'' then
        (case v of
           JInt n \<Rightarrow> if fits_int64 n then (u\<lparr>Id_fld := n\<rparr>, saved)
                     else (u, saveError (UnmarshalTypeError ''User.id'') saved)
         | _ \<Rightarrow> (u, saveError (UnmarshalTypeError ''User.id'') saved))
      else if key = ''name'' then
        (case v of
           JStr s \<Rightarrow> (u\<lparr>Name := s\<rparr>, saved)
         | _ \<Rightarrow> (u, saveError (UnmarshalTypeError ''User.name'') saved))
      else if key = ''email'' then
        (case v of
           JStr s \<Rightarrow> (u\<lparr>Email := s\<rparr>, saved)
         | _ \<Rightarrow> (u, saveError (UnmarshalTypeError ''User.email'') saved))
      else (u, saved))"

definition Decode :: "body \<Rightarrow> User \<Rightarrow> User \<times> decode_error option" where
  "Decode b u =
     (case b of
        Malformed \<Rightarrow> (u, Some SyntaxError)
      | Json j \<Rightarrow>
          (case j of
             JObj members \<Rightarrow> foldl store_member (u, None) members
           | JNull \<Rightarrow> (u, None)
           | _ \<Rightarrow> (u, Some (UnmarshalTypeError ''User''))))"

subsection \<open>Requests and the response writer\<close>

record Request =
  Method :: string
  path :: string
  vars :: "(string \<times> string) list"
  body :: body

definition Vars :: "Request \<Rightarrow> string \<Rightarrow> string" where
  \<comment> \<open>\<^verbatim>\<open>mux.Vars(r)["id"]\<close>: a Go map read, the empty string for a missing key.\<close>
  "Vars r k = (case map_of (vars r) k of None \<Rightarrow> [] | Some v \<Rightarrow> v)"

text \<open>
  What a handler has written so far: the header map, the status line once it is
  committed, and the pieces of the body in order. A piece is text or a JSON document
  (the encoder's output, up to its layout).
\<close>

datatype chunk = Text string | JsonDoc json

record ResponseWriter =
  header :: "(string \<times> string) list"
  status :: "nat option"
  written :: "chunk list"

definition new_writer :: ResponseWriter where
  "new_writer = \<lparr>header = [], status = None, written = []\<rparr>"

fun set_key :: "string \<Rightarrow> string \<Rightarrow> (string \<times> string) list \<Rightarrow> (string \<times> string) list" where
  "set_key k v [] = [(k, v)]"
| "set_key k v (p # ps) = (if fst p = k then (k, v) # ps else p # set_key k v ps)"

definition Header_Set :: "string \<Rightarrow> string \<Rightarrow> ResponseWriter \<Rightarrow> ResponseWriter" where
  \<comment> \<open>\<^verbatim>\<open>w.Header().Set(k, v)\<close>.\<close>
  "Header_Set k v w = w\<lparr>header := set_key k v (header w)\<rparr>"

definition WriteHeader :: "nat \<Rightarrow> ResponseWriter \<Rightarrow> ResponseWriter" where
  \<comment> \<open>The first call commits the status; a later one is ignored by \<^verbatim>\<open>net/http\<close>.\<close>
  "WriteHeader code w = (if status w = None then w\<lparr>status := Some code\<rparr> else w)"

definition Write :: "chunk \<Rightarrow> ResponseWriter \<Rightarrow> ResponseWriter" where
  \<comment> \<open>A write before any \<^verbatim>\<open>WriteHeader\<close> commits status 200 first.\<close>
  "Write c w = (let w' = WriteHeader 200 w in w'\<lparr>written := written w' @ [c]\<rparr>)"

definition Encode :: "json \<Rightarrow> ResponseWriter \<Rightarrow> ResponseWriter" where
  \<comment> \<open>\<^verbatim>\<open>json.NewEncoder(w).Encode(v)\<close>.\<close>
  "Encode j w = Write (JsonDoc j) w"

definition StatusOK :: nat where "StatusOK = 200"
definition StatusNotFound :: nat where "StatusNotFound = 404"
definition StatusInternalServerError :: nat where "StatusInternalServerError = 500"

subsection \<open>The database\<close>

text \<open>
  The table \<^verbatim>\<open>users (id SERIAL PRIMARY KEY, name TEXT, email TEXT)\<close>: rows in storage
  order, both text columns nullable, and the sequence behind \<^verbatim>\<open>SERIAL\<close>. The rest of
  the record is what the server may do to a statement: \<open>fault\<close> fails every statement
  (connection lost, table missing), \<open>ddl_fault\<close> fails the \<^verbatim>\<open>CREATE TABLE\<close> alone,
  \<open>stream_cut\<close> breaks a multi-row result after so many rows, and \<open>int4in\<close> is the
  server's reading of the text parameter \<^verbatim>\<open>$1\<close> as an integer (\<open>None\<close>: invalid input
  syntax).
\<close>

type_synonym row = "int \<times> string option \<times> string option"

datatype sql_error = ErrNoRows | ErrScanNull | ErrServer string

record DB =
  users_table :: "row list"
  serial :: int
  fault :: "string option"
  ddl_fault :: "string option"
  stream_cut :: "(nat \<times> string) option"
  int4in :: "string \<Rightarrow> int option"

definition Error_text :: "sql_error \<Rightarrow> string" where
  \<comment> \<open>\<^verbatim>\<open>err.Error()\<close>, as \<^verbatim>\<open>log.Fatal(err)\<close> prints it.\<close>
  "Error_text e =
     (case e of
        ErrNoRows \<Rightarrow> ''sql: no rows in result set''
      | ErrScanNull \<Rightarrow> ''sql: Scan error: converting NULL to string is unsupported''
      | ErrServer m \<Rightarrow> ''pq: '' @ m)"

definition bind_id :: "DB \<Rightarrow> string \<Rightarrow> sql_error + int" where
  "bind_id db id' =
     (case int4in db id' of
        None \<Rightarrow> Inl (ErrServer ''invalid input syntax for type integer'')
      | Some n \<Rightarrow> Inr n)"

definition Scan :: "row \<Rightarrow> sql_error + User" where
  \<comment> \<open>\<^verbatim>\<open>Scan(&user.Id, &user.Name, &user.Email)\<close>: a NULL cannot go into a Go string.\<close>
  "Scan r =
     (case r of (i, n, e) \<Rightarrow>
        (case n of
           None \<Rightarrow> Inl ErrScanNull
         | Some name \<Rightarrow>
             (case e of
                None \<Rightarrow> Inl ErrScanNull
              | Some email \<Rightarrow> Inr \<lparr>Id_fld = i, Name = name, Email = email\<rparr>)))"

definition Exec_create_table :: "DB \<Rightarrow> sql_error option" where
  \<comment> \<open>\<^verbatim>\<open>CREATE TABLE IF NOT EXISTS users (...)\<close>: no change where it succeeds.\<close>
  "Exec_create_table db =
     (case fault db of
        Some m \<Rightarrow> Some (ErrServer m)
      | None \<Rightarrow> (case ddl_fault db of Some m \<Rightarrow> Some (ErrServer m) | None \<Rightarrow> None))"

definition Exec_delete :: "string \<Rightarrow> DB \<Rightarrow> sql_error + DB" where
  \<comment> \<open>\<^verbatim>\<open>DELETE FROM users WHERE id=$1\<close>\<close>
  "Exec_delete id' db =
     (case fault db of
        Some m \<Rightarrow> Inl (ErrServer m)
      | None \<Rightarrow>
          (case bind_id db id' of
             Inl e \<Rightarrow> Inl e
           | Inr n \<Rightarrow> Inr (db\<lparr>users_table := filter (\<lambda>r. fst r \<noteq> n) (users_table db)\<rparr>)))"

definition Exec_update :: "string \<Rightarrow> string \<Rightarrow> string \<Rightarrow> DB \<Rightarrow> sql_error + DB" where
  \<comment> \<open>\<^verbatim>\<open>UPDATE users SET name=$1, email=$2 WHERE id=$3\<close>\<close>
  "Exec_update name email id' db =
     (case fault db of
        Some m \<Rightarrow> Inl (ErrServer m)
      | None \<Rightarrow>
          (case bind_id db id' of
             Inl e \<Rightarrow> Inl e
           | Inr n \<Rightarrow>
               Inr (db\<lparr>users_table := map (\<lambda>r. if fst r = n then (n, Some name, Some email) else r) (users_table db)\<rparr>)))"

definition QueryRow_select :: "string \<Rightarrow> DB \<Rightarrow> sql_error + User" where
  \<comment> \<open>\<^verbatim>\<open>SELECT ... FROM users WHERE id=$1\<close> and the \<^verbatim>\<open>Scan\<close> of its first row;
      \<^verbatim>\<open>Row.Scan\<close> returns \<^verbatim>\<open>sql.ErrNoRows\<close> when there is none.\<close>
  "QueryRow_select id' db =
     (case fault db of
        Some m \<Rightarrow> Inl (ErrServer m)
      | None \<Rightarrow>
          (case bind_id db id' of
             Inl e \<Rightarrow> Inl e
           | Inr n \<Rightarrow>
               (case filter (\<lambda>r. fst r = n) (users_table db) of
                  [] \<Rightarrow> Inl ErrNoRows
                | r # _ \<Rightarrow> Scan r)))"

definition QueryRow_insert :: "string \<Rightarrow> string \<Rightarrow> DB \<Rightarrow> sql_error + (int \<times> DB)" where
  \<comment> \<open>\<^verbatim>\<open>INSERT INTO users (name, email) VALUES ($1,$2) RETURNING id\<close> and the
      \<^verbatim>\<open>Scan(&user.Id)\<close> of the returned id. The sequence advances also when the
      primary key rejects the row.\<close>
  "QueryRow_insert name email db =
     (case fault db of
        Some m \<Rightarrow> Inl (ErrServer m)
      | None \<Rightarrow>
          (let i = serial db; db' = db\<lparr>serial := i + 1\<rparr> in
           if i \<in> fst ` set (users_table db)
           then Inl (ErrServer ''duplicate key value violates unique constraint'')
           else Inr (i, db'\<lparr>users_table := users_table db @ [(i, Some name, Some email)]\<rparr>)))"

definition Query_all :: "DB \<Rightarrow> sql_error + (row list \<times> string option)" where
  \<comment> \<open>\<^verbatim>\<open>SELECT * FROM users\<close>: the rows that \<^verbatim>\<open>rows.Next()\<close> delivers and what
      \<^verbatim>\<open>rows.Err()\<close> says after the last one.\<close>
  "Query_all db =
     (case fault db of
        Some m \<Rightarrow> Inl (ErrServer m)
      | None \<Rightarrow>
          (case stream_cut db of
             None \<Rightarrow> Inr (users_table db, None)
           | Some (k, m) \<Rightarrow> Inr (take k (users_table db), Some m)))"

subsection \<open>Handlers\<close>

text \<open>
  A handler takes the response writer, the request and the database, and either returns
  with the writer as it left it, or the process exits inside it. \<^verbatim>\<open>log.Fatal\<close> is
  \<^verbatim>\<open>Print\<close> followed by \<^verbatim>\<open>os.Exit(1)\<close>: the statements the source has after
  it (\<^verbatim>\<open>w.WriteHeader(...)\<close>, \<^verbatim>\<open>return\<close>) never run, so they have no
  counterpart here. What a statement did to the database before the exit stays done.
\<close>

datatype outcome = Exit string | Returned ResponseWriter

type_synonym Handler = "ResponseWriter \<Rightarrow> Request \<Rightarrow> DB \<Rightarrow> outcome \<times> DB"

definition log_Fatal :: "string \<Rightarrow> DB \<Rightarrow> outcome \<times> DB" where
  "log_Fatal msg db = (Exit msg, db)"

definition deleteUser :: Handler where
  "deleteUser w r db =
     (let user = fst (Decode (body r) zero_User);
          id' = Vars r ''id''
      in case Exec_delete id' db of
           Inl err \<Rightarrow> log_Fatal (Error_text err) db
         | Inr db' \<Rightarrow> (Returned (WriteHeader StatusOK w), db'))"

definition updateUser :: Handler where
  "updateUser w r db =
     (let user = fst (Decode (body r) zero_User);
          id' = Vars r ''id''
      in case Exec_update (Name user) (Email user) id' db of
           Inl err \<Rightarrow> log_Fatal (Error_text err) db
         | Inr db' \<Rightarrow>
             (case QueryRow_select id' db' of
                Inl err \<Rightarrow> log_Fatal (Error_text err) db'
              | Inr updatedUser \<Rightarrow> (Returned (Encode (encode_User updatedUser) w), db')))"

definition createUsers :: Handler where
  "createUsers w r db =
     (let user = fst (Decode (body r) zero_User)
      in case QueryRow_insert (Name user) (Email user) db of
           Inl err \<Rightarrow> log_Fatal (Error_text err) db
         | Inr (i, db') \<Rightarrow> (Returned (Encode (encode_User (user\<lparr>Id_fld := i\<rparr>)) w), db'))"

definition getUsersId :: Handler where
  "getUsersId w r db =
     (let id' = Vars r ''id''
      in case QueryRow_select id' db of
           Inl err \<Rightarrow> log_Fatal (Error_text err) db
         | Inr user \<Rightarrow> (Returned (Encode (encode_User user) w), db))"

fun scan_rows :: "row list \<Rightarrow> User list \<Rightarrow> sql_error + User list" where
  \<comment> \<open>The loop \<^verbatim>\<open>for rows.Next() { ... users = append(users, user) }\<close>.\<close>
  "scan_rows [] users = Inr users"
| "scan_rows (r # rs) users =
     (case Scan r of
        Inl err \<Rightarrow> Inl err
      | Inr user \<Rightarrow> scan_rows rs (users @ [user]))"

definition getUsers :: Handler where
  "getUsers w r db =
     (case Query_all db of
        Inl err \<Rightarrow> log_Fatal (Error_text err) db
      | Inr (rows, rows_Err) \<Rightarrow>
          (case scan_rows rows [] of
             Inl err \<Rightarrow> log_Fatal (Error_text err) db
           | Inr users \<Rightarrow>
               (case rows_Err of
                  Some m \<Rightarrow> log_Fatal (Error_text (ErrServer m)) db
                | None \<Rightarrow> (Returned (Encode (JArr (map encode_User users)) w), db))))"

definition EnableCORS :: "Handler \<Rightarrow> Handler" where
  "EnableCORS next w r db =
     (let w1 = Header_Set ''Access-Control-Allow-Origin'' ''*'' w;
          w2 = Header_Set ''Access-Control-Allow-Methods'' ''GET, PUT, PATCH, POST, DELETE'' w1;
          w3 = Header_Set ''Access-Control-Allow-Headers'' ''Content-Type'' w2
      in if Method r = ''OPTIONS'' then (Returned (WriteHeader StatusOK w3), db)
         else next w3 r db)"

definition homeHandler :: Handler where
  \<comment> \<open>\<^verbatim>\<open>fmt.Fprintln\<close> appends a newline (byte 10).\<close>
  "homeHandler w r db =
     (Returned (Write (Text (''Welcome to the Backend Service in Go!'' @ [char_of (10::nat)])) w), db)"

definition testRoute :: Handler where
  \<comment> \<open>The function literal that \<^verbatim>\<open>main\<close> registers on \<^verbatim>\<open>/\<close> between the comments
      \<^verbatim>\<open>Test Route - Start\<close> and \<^verbatim>\<open>Test Route - End\<close>.\<close>
  "testRoute w r db =
     (let w1 = Header_Set ''Content-Type'' ''application/json'' w;
          response = JObj [(''Message'', JStr ''Welcome to the Backend Service in Go!'')]
      in (Returned (Encode response w1), db))"

subsection \<open>The router (\<^verbatim>\<open>gorilla/mux\<close>)\<close>

text \<open>
  A route is a path template, the methods it is restricted to (none: any method) and
  its handler. The router keeps its routes in the order of registration and tries them
  in that order: the first route that matches the request serves it. A template matches
  segment by segment; \<^verbatim>\<open>{id}\<close> matches one non-empty segment and binds it. When no
  route matches, the answer is 405 if some route matched but for the method, else 404.
  Before any route is tried, a path that is not in clean form is answered with a
  redirect to its clean form.
\<close>

record Route =
  template :: string
  allowed :: "string list"
  route_handler :: Handler

definition Handle :: "string \<Rightarrow> Handler \<Rightarrow> Route" where
  \<comment> \<open>\<^verbatim>\<open>router.Handle(path, h)\<close> and \<^verbatim>\<open>router.HandleFunc(path, f)\<close>.\<close>
  "Handle p h = \<lparr>template = p, allowed = [], route_handler = h\<rparr>"

definition Methods :: "string list \<Rightarrow> Route \<Rightarrow> Route" where
  "Methods ms rt = rt\<lparr>allowed := ms\<rparr>"

fun split_path :: "string \<Rightarrow> string list" where
  "split_path [] = [[]]"
| "split_path (c # cs) =
     (if c = CHR ''/'' then [] # split_path cs
      else (case split_path cs of
              [] \<Rightarrow> [[c]]
            | s # ss \<Rightarrow> (c # s) # ss))"

definition is_var :: "string \<Rightarrow> bool" where
  "is_var seg \<longleftrightarrow> 2 \<le> length seg \<and> hd seg = CHR ''{'' \<and> last seg = CHR ''}''"

fun match_segs :: "string list \<Rightarrow> string list \<Rightarrow> (string \<times> string) list option" where
  "match_segs [] [] = Some []"
| "match_segs (t # ts) (s # ss) =
     (if is_var t then
        (if s = [] then None
         else (case match_segs ts ss of
                 None \<Rightarrow> None
               | Some vs \<Rightarrow> Some ((butlast (tl t), s) # vs)))
      else if t = s then match_segs ts ss
      else None)"
| "match_segs _ _ = None"

fun clean_segs :: "string list \<Rightarrow> string list \<Rightarrow> string list" where
  \<comment> \<open>\<^verbatim>\<open>path.Clean\<close> on a rooted path: the kept segments, last first in the accumulator.\<close>
  "clean_segs [] acc = rev acc"
| "clean_segs (s # ss) acc =
     (if s = [] \<or> s = ''.'' then clean_segs ss acc
      else if s = ''..'' then clean_segs ss (tl acc)
      else clean_segs ss (s # acc))"

definition cleanPath :: "string \<Rightarrow> string" where
  "cleanPath p =
     (if p = [] then ''/''
      else
        (let p1 = (if hd p \<noteq> CHR ''/'' then CHR ''/'' # p else p);
             segs = clean_segs (split_path p1) [];
             np = (if segs = [] then ''/'' else concat (map (\<lambda>s. CHR ''/'' # s) segs))
         in if last p1 = CHR ''/'' \<and> np \<noteq> ''/'' then np @ ''/'' else np))"

fun Match :: "Route list \<Rightarrow> Request \<Rightarrow> bool \<Rightarrow> (Handler \<times> (string \<times> string) list) + nat" where
  \<comment> \<open>The flag records a route that matched the path but not the method.\<close>
  "Match [] r mismatch = Inr (if mismatch then 405 else 404)"
| "Match (rt # rts) r mismatch =
     (case match_segs (split_path (template rt)) (split_path (path r)) of
        None \<Rightarrow> Match rts r mismatch
      | Some vs \<Rightarrow>
          if allowed rt = [] \<or> Method r \<in> set (allowed rt) then Inl (route_handler rt, vs)
          else Match rts r True)"

definition NotFound :: "ResponseWriter \<Rightarrow> ResponseWriter" where
  \<comment> \<open>\<^verbatim>\<open>http.NotFound\<close>, the router's default for an unmatched request.\<close>
  "NotFound w =
     Write (Text (''404 page not found'' @ [char_of (10::nat)]))
       (WriteHeader StatusNotFound
         (Header_Set ''X-Content-Type-Options'' ''nosniff''
           (Header_Set ''Content-Type'' ''text/plain; charset=utf-8'' w)))"

definition ServeHTTP :: "Route list \<Rightarrow> Handler" where
  "ServeHTTP routes w r db =
     (let p = cleanPath (path r) in
      if p \<noteq> path r then (Returned (WriteHeader 301 (Header_Set ''Location'' p w)), db)
      else
        (case Match routes r False of
           Inl (h, vs) \<Rightarrow> h w (r\<lparr>vars := vs\<rparr>) db
         | Inr code \<Rightarrow>
             if code = 405 then (Returned (WriteHeader 405 w), db)
             else (Returned (NotFound w), db)))"

definition router :: "Route list" where
  \<comment> \<open>The registrations of \<^verbatim>\<open>main\<close>, in its order.\<close>
  "router =
     [ Handle ''/'' (EnableCORS homeHandler),
       Handle ''/'' testRoute,
       Methods [''GET''] (Handle ''/api/go/users'' getUsers),
       Methods [''POST''] (Handle ''/api/go/users'' createUsers),
       Methods [''GET''] (Handle ''/api/go/users/{id}'' getUsersId),
       Methods [''PUT''] (Handle ''/api/go/users/{id}'' updateUser),
       Methods [''DELETE''] (Handle ''/api/go/users/{id}'' deleteUser) ]"

subsection \<open>The serving process\<close>

text \<open>
  The server hands each request to the router with a fresh writer. When the handler
  returns, the response goes out, with status 200 if the handler committed none. When
  the process exits inside the handler, the client gets no response, and neither does
  any later request. Requests are taken one after the other.
\<close>

record Response =
  code :: nat
  headers :: "(string \<times> string) list"
  content :: "chunk list"

definition finish :: "ResponseWriter \<Rightarrow> Response" where
  "finish w =
     \<lparr>code = (case status w of None \<Rightarrow> 200 | Some c \<Rightarrow> c), headers = header w, content = written w\<rparr>"

definition serve :: "Request \<Rightarrow> DB \<Rightarrow> Response option \<times> DB" where
  "serve r db =
     (case ServeHTTP router new_writer r db of
        (Exit msg, db') \<Rightarrow> (None, db')
      | (Returned w, db') \<Rightarrow> (Some (finish w), db'))"

fun run :: "Request list \<Rightarrow> DB \<Rightarrow> Response option list" where
  "run [] db = []"
| "run (r # rs) db =
     (case serve r db of
        (None, db') \<Rightarrow> None # map (\<lambda>_. None) rs
      | (Some resp, db') \<Rightarrow> Some resp # run rs db')"

subsection \<open>Startup\<close>

text \<open>
  What \<^verbatim>\<open>main\<close> meets outside the program: whether \<^verbatim>\<open>godotenv.Load\<close> fails, the
  environment as \<^verbatim>\<open>os.Getenv\<close> reads it afterwards (the empty string for an unset
  variable), whether \<^verbatim>\<open>sql.Open\<close> and \<^verbatim>\<open>db.Ping\<close> fail, the database behind
  the handle, and whether \<^verbatim>\<open>http.ListenAndServe\<close> comes back with an error. A run of
  \<^verbatim>\<open>main\<close> is the list of its steps; \<open>Fatal\<close> is \<^verbatim>\<open>log.Fatal\<close> and ends the run,
  and a run that ends in \<open>Listen\<close> is a process that serves. The deferred
  \<^verbatim>\<open>db.Close()\<close> has no step: \<^verbatim>\<open>main\<close> never returns, it exits through
  \<^verbatim>\<open>log.Fatal\<close> or stays in \<^verbatim>\<open>http.ListenAndServe\<close>.
\<close>

record World =
  dotenv_error :: "string option"
  environ :: "string \<Rightarrow> string"
  open_error :: "string option"
  ping_error :: "string option"
  database :: DB
  listen_error :: "string option"

datatype event =
    LoadEnv
  | Println string
  | SqlOpen string
  | Ping
  | CreateTableExec
  | LogPrint string
  | NewRouter
  | Listen string
  | Fatal string

definition ConnectDatabase :: "World \<Rightarrow> event list \<times> DB option" where
  "ConnectDatabase w =
     (let databaseURL = environ w ''DATABASE_URL'' in
      if databaseURL = [] then
        ([Fatal ''DATABASE_URL is not set in the environment variables''], None)
      else
        (case open_error w of
           Some err \<Rightarrow> ([SqlOpen databaseURL, Fatal err], None)
         | None \<Rightarrow>
             (case ping_error w of
                Some err \<Rightarrow>
                  ([SqlOpen databaseURL, Ping,
                    Fatal (''Could not establish a connection with the database:'' @ err)], None)
              | None \<Rightarrow> ([SqlOpen databaseURL, Ping], Some (database w)))))"

definition CreateTable :: "DB \<Rightarrow> event list" where
  "CreateTable db =
     (case Exec_create_table db of
        Some err \<Rightarrow> [CreateTableExec, LogPrint (''Error creating table: '' @ Error_text err)]
      | None \<Rightarrow> [CreateTableExec])"

definition ListenAndServe :: "World \<Rightarrow> event list" where
  "ListenAndServe w =
     (let port = (if environ w ''PORT'' = [] then ''8080'' else environ w ''PORT'') in
      [LogPrint (''Starting server on port: '' @ port), Listen ('':'' @ port)] @
      (case listen_error w of
         Some err \<Rightarrow> [Fatal (''Server failed to start:'' @ err)]
       | None \<Rightarrow> []))"

definition main :: "World \<Rightarrow> event list" where
  "main w =
     LoadEnv #
     (case dotenv_error w of
        Some err \<Rightarrow> [Fatal ''Error loading .env file'']
      | None \<Rightarrow>
          Println ''Backend Service in GoLang'' #
          (case ConnectDatabase w of
             (evs, None) \<Rightarrow> evs
           | (evs, Some db) \<Rightarrow> evs @ CreateTable db @ [NewRouter] @ ListenAndServe w))"

definition terminated :: "event list \<Rightarrow> bool" where
  "terminated evs \<longleftrightarrow> (evs \<noteq> [] \<and> (case last evs of Fatal m \<Rightarrow> True | _ \<Rightarrow> False))"

definition is_Listen :: "event \<Rightarrow> bool" where
  "is_Listen e = (case e of Listen a \<Rightarrow> True | _ \<Rightarrow> False)"

definition is_db_step :: "event \<Rightarrow> bool" where
  "is_db_step e = (case e of SqlOpen u \<Rightarrow> True | Ping \<Rightarrow> True | CreateTableExec \<Rightarrow> True | _ \<Rightarrow> False)"

subsection \<open>Sample inputs\<close>

text \<open>
  A healthy database with one row, whose server reads \<^verbatim>\<open>$1\<close> as an unsigned decimal
  number; the same database with the connection gone; and requests as a client sends
  them (\<^verbatim>\<open>mux.Vars\<close> is filled in by the router). A request without a body has
  nothing to decode: \<open>Malformed\<close>.
\<close>

fun decimal_acc :: "string \<Rightarrow> int \<Rightarrow> int option" where
  "decimal_acc [] n = Some n"
| "decimal_acc (c # cs) n =
     (let d = (of_char c :: nat) in
      if 48 \<le> d \<and> d \<le> 57 then decimal_acc cs (10 * n + int (d - 48)) else None)"

definition decimal :: "string \<Rightarrow> int option" where
  "decimal s = (if s = [] then None else decimal_acc s 0)"

definition sample_db :: DB where
  "sample_db =
     \<lparr>users_table = [(1, Some ''A'', Some ''a@x.com'')], serial = 2, fault = None,
      ddl_fault = None, stream_cut = None, int4in = decimal\<rparr>"

definition down_db :: DB where
  "down_db = sample_db\<lparr>fault := Some ''connection refused''\<rparr>"

definition request :: "string \<Rightarrow> string \<Rightarrow> body \<Rightarrow> Request" where
  "request m p b = \<lparr>Method = m, path = p, vars = [], body = b\<rparr>"

definition sample_world :: World where
  "sample_world =
     \<lparr>dotenv_error = None,
      environ = (\<lambda>k. if k = ''DATABASE_URL'' then ''postgres://db/users''
                     else if k = ''PORT'' then ''9000'' else []),
      open_error = None, ping_error = None, database = sample_db, listen_error = None\<rparr>"

text \<open>
  Worlds for \<^verbatim>\<open>main\<close>: one with no \<^verbatim>\<open>.env\<close> file and an empty environment, one where
  only \<^verbatim>\<open>DATABASE_URL\<close> is missing, one where the server rejects the \<^verbatim>\<open>CREATE TABLE\<close>,
  and the three ways of losing the storage handle. \<open>fatal_handler\<close> is a handler that
  ends the process as soon as it is called.
\<close>

definition no_env_world :: World where
  "no_env_world =
     sample_world\<lparr>dotenv_error := Some ''open .env: no such file or directory'',
                  environ := (\<lambda>k. [])\<rparr>"

definition dotenv_missing_world :: World where
  "dotenv_missing_world = sample_world\<lparr>dotenv_error := Some ''open .env: no such file or directory''\<rparr>"

definition unset_url_world :: World where
  "unset_url_world = sample_world\<lparr>environ := (\<lambda>k. if k = ''PORT'' then ''9000'' else [])\<rparr>"

definition ddl_fault_world :: World where
  "ddl_fault_world = sample_world\<lparr>database := sample_db\<lparr>ddl_fault := Some ''permission denied''\<rparr>\<rparr>"

definition ping_fault_world :: World where
  "ping_fault_world = sample_world\<lparr>ping_error := Some ''connection refused''\<rparr>"

definition fatal_handler :: Handler where
  "fatal_handler w r db = log_Fatal ''handler reached'' db"

section \<open>Properties\<close>

subsection \<open>Basic facts about the writer, the decoder and the router\<close>

lemma map_of_set_key_same: "map_of (set_key k v al) k = Some v"
  by (induction al) auto

lemma map_of_set_key_other: "k' \<noteq> k \<Longrightarrow> map_of (set_key k v al) k' = map_of al k'"
  by (induction al) auto

lemma status_Write: "status w = None \<Longrightarrow> status (Write c w) = Some 200"
  by (simp add: Write_def WriteHeader_def)

lemma status_Encode: "status w = None \<Longrightarrow> status (Encode j w) = Some 200"
  by (simp add: Encode_def status_Write)

lemma Decode_Malformed: "Decode Malformed u = (u, Some SyntaxError)"
  by (simp add: Decode_def)

lemma Decode_name_email:
  "Decode (Json (JObj [(''name'', JStr n), (''email'', JStr e)])) zero_User
     = (\<lparr>Id_fld = 0, Name = n, Email = e\<rparr>, None)"
  by (simp add: Decode_def store_member_def zero_User_def lower_def Let_def)

lemma cleanPath_root: "cleanPath ''/'' = ''/''"
  by (simp add: cleanPath_def)

lemma cleanPath_users: "cleanPath ''/api/go/users'' = ''/api/go/users''"
  by (simp add: cleanPath_def)

lemma Match_first_root: "path r = ''/'' \<Longrightarrow> Match (Handle ''/'' h # rest) r mm = Inl (h, [])"
  by (simp add: Handle_def is_var_def)

lemma Match_users_GET:
  "path r = ''/api/go/users'' \<Longrightarrow> Method r = ''GET'' \<Longrightarrow> Match router r False = Inl (getUsers, [])"
  by (simp add: router_def Handle_def Methods_def is_var_def)

lemma Match_users_POST:
  "path r = ''/api/go/users'' \<Longrightarrow> Method r = ''POST'' \<Longrightarrow> Match router r False = Inl (createUsers, [])"
  by (simp add: router_def Handle_def Methods_def is_var_def)

lemma createUsers_Returned_status:
  "status w = None \<Longrightarrow> fst (createUsers w r db) = Returned w' \<Longrightarrow> status w' = Some 200"
  by (auto simp: createUsers_def log_Fatal_def status_Encode Let_def split: sum.splits prod.splits)

lemma updateUser_Returned_status:
  "status w = None \<Longrightarrow> fst (updateUser w r db) = Returned w' \<Longrightarrow> status w' = Some 200"
  by (auto simp: updateUser_def log_Fatal_def status_Encode Let_def split: sum.splits prod.splits)

lemma createUsers_table:
  "fault db = None \<Longrightarrow> serial db \<notin> fst ` set (users_table db) \<Longrightarrow>
   users_table (snd (createUsers w r db)) =
     users_table db @ [(serial db, Some (Name (fst (Decode (body r) zero_User))),
                                  Some (Email (fst (Decode (body r) zero_User))))]"
  by (simp add: createUsers_def QueryRow_insert_def Let_def)

lemma updateUser_table:
  "fault db = None \<Longrightarrow> int4in db (Vars r ''id'') = Some n \<Longrightarrow>
   users_table (snd (updateUser w r db)) =
     map (\<lambda>row. if fst row = n
                then (n, Some (Name (fst (Decode (body r) zero_User))),
                         Some (Email (fst (Decode (body r) zero_User))))
                else row) (users_table db)"
  by (simp add: updateUser_def Exec_update_def bind_id_def log_Fatal_def Let_def split: sum.splits)

lemma createUsers_same_fields:
  "Name (fst (Decode (body r) zero_User)) = Name (fst (Decode (body r') zero_User)) \<Longrightarrow>
   Email (fst (Decode (body r) zero_User)) = Email (fst (Decode (body r') zero_User)) \<Longrightarrow>
   createUsers w r db = createUsers w r' db"
  by (simp add: createUsers_def Let_def encode_User_def split: sum.splits prod.splits)

lemma updateUser_same_fields:
  "Name (fst (Decode (body r) zero_User)) = Name (fst (Decode (body r') zero_User)) \<Longrightarrow>
   Email (fst (Decode (body r) zero_User)) = Email (fst (Decode (body r') zero_User)) \<Longrightarrow>
   vars r = vars r' \<Longrightarrow>
   updateUser w r db = updateUser w r' db"
  by (simp add: updateUser_def Let_def Vars_def)

subsection \<open>Get by id\<close>

lemma QueryRow_select_no_row:
  "fault db = None \<Longrightarrow> int4in db id' = Some n \<Longrightarrow> n \<notin> fst ` set (users_table db) \<Longrightarrow>
   QueryRow_select id' db = Inl ErrNoRows"
proof -
  assume f: "fault db = None" and i: "int4in db id' = Some n" and n: "n \<notin> fst ` set (users_table db)"
  from n have "filter (\<lambda>r. fst r = n) (users_table db) = []"
    by (auto simp: filter_empty_conv)
  with f i show ?thesis
    by (simp add: QueryRow_select_def bind_id_def)
qed

lemma getUsersId_no_row_exits:
  "fault db = None \<Longrightarrow> int4in db (Vars r ''id'') = Some n \<Longrightarrow> n \<notin> fst ` set (users_table db) \<Longrightarrow>
   getUsersId w r db = (Exit ''sql: no rows in result set'', db)"
  by (simp add: getUsersId_def QueryRow_select_no_row log_Fatal_def Error_text_def)

lemma getUsersId_Returned_status:
  "status w = None \<Longrightarrow> fst (getUsersId w r db) = Returned w' \<Longrightarrow> status w' = Some 200"
  by (auto simp: getUsersId_def log_Fatal_def status_Encode Let_def split: sum.splits)

text \<open>
  Claim C1: a GET for an id that matches no row is answered with 404, never with 500,
  and the process stays alive for the requests that follow.

  The code does not do this. \<^verbatim>\<open>Row.Scan\<close> returns \<^verbatim>\<open>sql.ErrNoRows\<close>, the handler
  calls \<^verbatim>\<open>log.Fatal(err)\<close>, and the \<^verbatim>\<open>w.WriteHeader(http.StatusNotFound)\<close> written
  after it never runs. On a healthy database that holds only id 1, the request for id 7
  ends the process: it gets no response, and the request after it gets none either,
  although that request alone would be answered with the row. The two lemmas above say
  the same of every database and every id without a row, and that a response of this
  handler always has status 200.
\<close>

theorem getUsersId_missing_row_exits:
  "fst (getUsersId new_writer
          (request ''GET'' ''/api/go/users/7'' Malformed\<lparr>vars := [(''id'', ''7'')]\<rparr>) sample_db)
     = Exit ''sql: no rows in result set''
   \<and> run [request ''GET'' ''/api/go/users/7'' Malformed,
           request ''GET'' ''/api/go/users/1'' Malformed] sample_db
     = [None, None]
   \<and> run [request ''GET'' ''/api/go/users/1'' Malformed] sample_db
     = [Some \<lparr>code = 200, headers = [],
               content = [JsonDoc (JObj [(''id'', JInt 1), (''name'', JStr ''A''),
                                         (''email'', JStr ''a@x.com'')])]\<rparr>]"
  by code_simp

subsection \<open>Bodies that fail to decode\<close>

text \<open>
  Claim C2, as stated, fails: a POST or PUT whose body fails JSON decoding does not
  always go on with zero-valued fields, and the process does not always survive it.
  The body \<^verbatim>\<open>{"name":"A","email":5}\<close> fails decoding (a number cannot be stored in
  the string field), yet the name \<^verbatim>\<open>A\<close> is stored and inserted. A PUT with a body that
  is no JSON at all, for an id that matches no row, updates nothing, finds no row to
  read back and ends the process in \<^verbatim>\<open>log.Fatal\<close>.
\<close>

theorem decode_failure_counterexample:
  "snd (Decode (Json (JObj [(''name'', JStr ''A''), (''email'', JInt 5)])) zero_User)
     = Some (UnmarshalTypeError ''User.email'')
   \<and> users_table (snd (serve (request ''POST'' ''/api/go/users''
         (Json (JObj [(''name'', JStr ''A''), (''email'', JInt 5)]))) sample_db))
     = [(1, Some ''A'', Some ''a@x.com''), (2, Some ''A'', Some [])]
   \<and> snd (Decode Malformed zero_User) = Some SyntaxError
   \<and> fst (serve (request ''PUT'' ''/api/go/users/9'' Malformed) sample_db) = None"
  by code_simp

text \<open>
  Claim C2, amended: for every POST or PUT whose body fails JSON decoding, the decode
  error is never checked. The handler behaves exactly as for a well-formed body that
  carries the name and email the decoder left in the struct; these are empty when the
  body is not a JSON text; the SQL statement runs with them; and a handler that
  responds has committed status 200, never 400.
\<close>

theorem decode_error_never_checked:
  assumes "snd (Decode (body r) zero_User) = Some e"
      and "u = fst (Decode (body r) zero_User)"
      and "r' = r\<lparr>body := Json (JObj [(''name'', JStr (Name u)), (''email'', JStr (Email u))])\<rparr>"
  shows "snd (Decode (body r') zero_User) = None
       \<and> createUsers w r db = createUsers w r' db
       \<and> updateUser w r db = updateUser w r' db
       \<and> (body r = Malformed \<longrightarrow> Name u = [] \<and> Email u = [])
       \<and> (fault db = None \<and> serial db \<notin> fst ` set (users_table db) \<longrightarrow>
            users_table (snd (createUsers w r db))
              = users_table db @ [(serial db, Some (Name u), Some (Email u))])
       \<and> (\<forall>n. fault db = None \<and> int4in db (Vars r ''id'') = Some n \<longrightarrow>
            users_table (snd (updateUser w r db))
              = map (\<lambda>row. if fst row = n then (n, Some (Name u), Some (Email u)) else row)
                    (users_table db))
       \<and> (\<forall>w'. status w = None \<and> fst (createUsers w r db) = Returned w' \<longrightarrow> status w' = Some 200)
       \<and> (\<forall>w'. status w = None \<and> fst (updateUser w r db) = Returned w' \<longrightarrow> status w' = Some 200)"
proof -
  have d: "Decode (body r') zero_User = (\<lparr>Id_fld = 0, Name = Name u, Email = Email u\<rparr>, None)"
    using assms(3) by (simp add: Decode_name_email)
  have c: "createUsers w r db = createUsers w r' db"
    using d assms(2) by (intro createUsers_same_fields) simp_all
  have p: "updateUser w r db = updateUser w r' db"
    using d assms(2,3) by (intro updateUser_same_fields) simp_all
  have z: "body r = Malformed \<longrightarrow> Name u = [] \<and> Email u = []"
    using assms(2) by (simp add: Decode_Malformed zero_User_def)
  have t1: "fault db = None \<and> serial db \<notin> fst ` set (users_table db) \<longrightarrow>
            users_table (snd (createUsers w r db))
              = users_table db @ [(serial db, Some (Name u), Some (Email u))]"
    using assms(2) by (simp add: createUsers_table)
  have t2: "\<forall>n. fault db = None \<and> int4in db (Vars r ''id'') = Some n \<longrightarrow>
            users_table (snd (updateUser w r db))
              = map (\<lambda>row. if fst row = n then (n, Some (Name u), Some (Email u)) else row)
                    (users_table db)"
    using assms(2) by (simp add: updateUser_table)
  have s1: "\<forall>w'. status w = None \<and> fst (createUsers w r db) = Returned w' \<longrightarrow> status w' = Some 200"
    using createUsers_Returned_status by blast
  have s2: "\<forall>w'. status w = None \<and> fst (updateUser w r db) = Returned w' \<longrightarrow> status w' = Some 200"
    using updateUser_Returned_status by blast
  from d have d': "snd (Decode (body r') zero_User) = None"
    by simp
  show ?thesis
    by (intro conjI) (rule d' c p z t1 t2 s1 s2)+
qed

theorem decode_error_never_checked_witness:
  "snd (Decode (body (request ''POST'' ''/api/go/users'' Malformed)) zero_User) = Some SyntaxError
   \<and> createUsers new_writer (request ''POST'' ''/api/go/users'' Malformed) sample_db
       = createUsers new_writer
           (request ''POST'' ''/api/go/users'' (Json (JObj [(''name'', JStr []), (''email'', JStr [])])))
           sample_db
   \<and> users_table (snd (createUsers new_writer (request ''POST'' ''/api/go/users'' Malformed) sample_db))
       = [(1, Some ''A'', Some ''a@x.com''), (2, Some [], Some [])]"
proof -
  let ?r = "request ''POST'' ''/api/go/users'' Malformed"
  have h: "snd (Decode (body ?r) zero_User) = Some SyntaxError"
    by (simp add: request_def Decode_Malformed)
  have f: "fst (Decode (body ?r) zero_User) = zero_User"
    by (simp add: request_def Decode_Malformed)
  have n: "Name zero_User = []" "Email zero_User = []"
    by (simp_all add: zero_User_def)
  have b: "?r\<lparr>body := Json (JObj [(''name'', JStr []), (''email'', JStr [])])\<rparr>
             = request ''POST'' ''/api/go/users'' (Json (JObj [(''name'', JStr []), (''email'', JStr [])]))"
    by (simp add: request_def)
  have s: "fault sample_db = None \<and> serial sample_db \<notin> fst ` set (users_table sample_db)"
    by (simp add: sample_db_def)
  have s': "users_table sample_db @ [(serial sample_db, Some [], Some [])]
              = [(1, Some ''A'', Some ''a@x.com''), (2, Some [], Some [])]"
    by (simp add: sample_db_def)
  note T = decode_error_never_checked [OF h refl refl, of new_writer sample_db, unfolded f n b]
  from T have c: "createUsers new_writer ?r sample_db
       = createUsers new_writer
           (request ''POST'' ''/api/go/users'' (Json (JObj [(''name'', JStr []), (''email'', JStr [])])))
           sample_db"
    by (elim conjE)
  from T have "fault sample_db = None \<and> serial sample_db \<notin> fst ` set (users_table sample_db) \<longrightarrow>
            users_table (snd (createUsers new_writer ?r sample_db))
              = users_table sample_db @ [(serial sample_db, Some [], Some [])]"
    by (elim conjE)
  with s have "users_table (snd (createUsers new_writer ?r sample_db))
              = users_table sample_db @ [(serial sample_db, Some [], Some [])]"
    by (rule_tac mp)
  then have t: "users_table (snd (createUsers new_writer ?r sample_db))
       = [(1, Some ''A'', Some ''a@x.com''), (2, Some [], Some [])]"
    by (simp only: s')
  show ?thesis
    by (intro conjI) (rule h c t)+
qed

subsection \<open>The root path\<close>

lemma ServeHTTP_first_root:
  assumes "path r = ''/''"
  shows "ServeHTTP (Handle ''/'' h # rest) w r db = h w (r\<lparr>vars := []\<rparr>) db"
proof -
  have m: "Match (Handle ''/'' h # rest) r False = Inl (h, [])"
    using assms by (rule Match_first_root)
  show ?thesis
    unfolding ServeHTTP_def m by (simp add: assms cleanPath_root)
qed

lemma EnableCORS_homeHandler_fresh:
  "Method r \<noteq> ''OPTIONS'' \<Longrightarrow>
   EnableCORS homeHandler new_writer r db =
     (Returned \<lparr>header = [(''Access-Control-Allow-Origin'', ''*''),
                           (''Access-Control-Allow-Methods'', ''GET, PUT, PATCH, POST, DELETE''),
                           (''Access-Control-Allow-Headers'', ''Content-Type'')],
                 status = Some 200,
                 written = [Text (''Welcome to the Backend Service in Go!'' @ [char_of (10::nat)])]\<rparr>, db)"
  by (simp add: EnableCORS_def homeHandler_def Header_Set_def Write_def WriteHeader_def new_writer_def)

text \<open>
  Claim C3, as stated, fails: a GET on \<^verbatim>\<open>/\<close> does not receive the JSON body of the
  second registration. It receives the text line of \<^verbatim>\<open>homeHandler\<close>.
\<close>

theorem root_second_registration_counterexample:
  "map_option content (fst (serve (request ''GET'' ''/'' Malformed) sample_db))
     = Some [Text (''Welcome to the Backend Service in Go!'' @ [char_of (10::nat)])]
   \<and> map_option content (fst (serve (request ''GET'' ''/'' Malformed) sample_db))
     \<noteq> Some [JsonDoc (JObj [(''Message'', JStr ''Welcome to the Backend Service in Go!'')])]"
  by code_simp

text \<open>
  Claim C3, amended: every GET request to the path \<^verbatim>\<open>/\<close> receives, with status 200 and
  the three CORS headers, the text line \<^verbatim>\<open>Welcome to the Backend Service in Go!\<close>
  produced by the first registration on \<^verbatim>\<open>/\<close> (\<^verbatim>\<open>EnableCORS(homeHandler)\<close>). The
  router tries its routes in the order of registration, so the first registration
  shadows the second, whatever handler the second one carries.
\<close>

theorem root_served_by_first_registration:
  assumes "path r = ''/''" and "Method r = ''GET''"
  shows "serve r db =
           (Some \<lparr>code = 200,
                   headers = [(''Access-Control-Allow-Origin'', ''*''),
                              (''Access-Control-Allow-Methods'', ''GET, PUT, PATCH, POST, DELETE''),
                              (''Access-Control-Allow-Headers'', ''Content-Type'')],
                   content = [Text (''Welcome to the Backend Service in Go!'' @ [char_of (10::nat)])]\<rparr>,
            db)
       \<and> (\<forall>h rest. Match (Handle ''/'' (EnableCORS homeHandler) # Handle ''/'' h # rest) r False
                      = Inl (EnableCORS homeHandler, []))"
proof -
  have g: "Method (r\<lparr>vars := []\<rparr>) \<noteq> ''OPTIONS''"
    using assms(2) by simp
  have "ServeHTTP router new_writer r db = EnableCORS homeHandler new_writer (r\<lparr>vars := []\<rparr>) db"
    unfolding router_def using assms(1) by (rule ServeHTTP_first_root)
  then have s: "serve r db =
           (Some \<lparr>code = 200,
                   headers = [(''Access-Control-Allow-Origin'', ''*''),
                              (''Access-Control-Allow-Methods'', ''GET, PUT, PATCH, POST, DELETE''),
                              (''Access-Control-Allow-Headers'', ''Content-Type'')],
                   content = [Text (''Welcome to the Backend Service in Go!'' @ [char_of (10::nat)])]\<rparr>,
            db)"
    by (simp add: serve_def EnableCORS_homeHandler_fresh [OF g] finish_def)
  have m: "\<forall>h rest. Match (Handle ''/'' (EnableCORS homeHandler) # Handle ''/'' h # rest) r False
                      = Inl (EnableCORS homeHandler, [])"
    by (intro allI Match_first_root assms(1))
  show ?thesis
    by (intro conjI) (rule s m)+
qed

theorem root_served_by_first_registration_witness:
  "path (request ''GET'' ''/'' Malformed) = ''/''
   \<and> Method (request ''GET'' ''/'' Malformed) = ''GET''
   \<and> fst (serve (request ''GET'' ''/'' Malformed) sample_db) =
       Some \<lparr>code = 200,
              headers = [(''Access-Control-Allow-Origin'', ''*''),
                         (''Access-Control-Allow-Methods'', ''GET, PUT, PATCH, POST, DELETE''),
                         (''Access-Control-Allow-Headers'', ''Content-Type'')],
              content = [Text (''Welcome to the Backend Service in Go!'' @ [char_of (10::nat)])]\<rparr>"
proof -
  let ?r = "request ''GET'' ''/'' Malformed"
  have p: "path ?r = ''/''"
    by (simp add: request_def)
  have m: "Method ?r = ''GET''"
    by (simp add: request_def)
  from root_served_by_first_registration [OF p m, of sample_db]
  have "serve ?r sample_db =
           (Some \<lparr>code = 200,
                   headers = [(''Access-Control-Allow-Origin'', ''*''),
                              (''Access-Control-Allow-Methods'', ''GET, PUT, PATCH, POST, DELETE''),
                              (''Access-Control-Allow-Headers'', ''Content-Type'')],
                   content = [Text (''Welcome to the Backend Service in Go!'' @ [char_of (10::nat)])]\<rparr>,
            sample_db)"
    by (elim conjE)
  then have s: "fst (serve ?r sample_db) =
       Some \<lparr>code = 200,
              headers = [(''Access-Control-Allow-Origin'', ''*''),
                         (''Access-Control-Allow-Methods'', ''GET, PUT, PATCH, POST, DELETE''),
                         (''Access-Control-Allow-Headers'', ''Content-Type'')],
              content = [Text (''Welcome to the Backend Service in Go!'' @ [char_of (10::nat)])]\<rparr>"
    by (simp only: fst_conv)
  show ?thesis
    by (intro conjI) (rule p m s)+
qed

subsection \<open>List\<close>

lemma ServeHTTP_users_GET:
  "path r = ''/api/go/users'' \<Longrightarrow> Method r = ''GET'' \<Longrightarrow>
   ServeHTTP router w r db = getUsers w (r\<lparr>vars := []\<rparr>) db"
  by (simp add: ServeHTTP_def cleanPath_users Match_users_GET)

text \<open>
  Claim C4, as stated, fails: after the fatal log nothing goes on. With the connection
  gone, the List handler ends the process; it does not encode the empty list, and the
  client gets no response.
\<close>

theorem getUsers_query_error_counterexample:
  "fst (getUsers new_writer (request ''GET'' ''/api/go/users'' Malformed) down_db)
     = Exit ''pq: connection refused''
   \<and> fst (getUsers new_writer (request ''GET'' ''/api/go/users'' Malformed) down_db)
     \<noteq> Returned (Encode (JArr []) new_writer)
   \<and> fst (serve (request ''GET'' ''/api/go/users'' Malformed) down_db) = None"
  by code_simp

text \<open>
  Claim C4, amended: when the List handler's \<^verbatim>\<open>SELECT * FROM users\<close> query returns an
  error, the handler emits a fatal log of that error, which ends the process: no user
  list is encoded, no response is written, and the database is left as it was.
\<close>

theorem getUsers_query_error_exits:
  assumes "Query_all db = Inl err"
  shows "getUsers w r db = (Exit (Error_text err), db)
       \<and> (path r = ''/api/go/users'' \<and> Method r = ''GET'' \<longrightarrow> serve r db = (None, db))"
proof -
  have g: "\<And>w' r'. getUsers w' r' db = (Exit (Error_text err), db)"
    using assms by (simp add: getUsers_def log_Fatal_def)
  have "path r = ''/api/go/users'' \<and> Method r = ''GET'' \<longrightarrow> serve r db = (None, db)"
    by (simp add: serve_def ServeHTTP_users_GET g)
  with g show ?thesis
    by simp
qed

theorem getUsers_query_error_exits_witness:
  "Query_all down_db = Inl (ErrServer ''connection refused'')
   \<and> fst (getUsers new_writer (request ''GET'' ''/api/go/users'' Malformed) down_db)
       = Exit ''pq: connection refused''
   \<and> fst (serve (request ''GET'' ''/api/go/users'' Malformed) down_db) = None"
proof -
  let ?r = "request ''GET'' ''/api/go/users'' Malformed"
  have q: "Query_all down_db = Inl (ErrServer ''connection refused'')"
    by (simp add: Query_all_def down_db_def sample_db_def)
  have pm: "path ?r = ''/api/go/users'' \<and> Method ?r = ''GET''"
    by (simp add: request_def)
  note T = getUsers_query_error_exits [OF q, of new_writer ?r]
  from T have "getUsers new_writer ?r down_db = (Exit (Error_text (ErrServer ''connection refused'')), down_db)"
    by (elim conjE)
  then have a: "fst (getUsers new_writer ?r down_db) = Exit ''pq: connection refused''"
    by (simp add: Error_text_def)
  from T have "path ?r = ''/api/go/users'' \<and> Method ?r = ''GET'' \<longrightarrow> serve ?r down_db = (None, down_db)"
    by (elim conjE)
  with pm have "serve ?r down_db = (None, down_db)"
    by (rule_tac mp)
  then have b: "fst (serve ?r down_db) = None"
    by (simp only: fst_conv)
  show ?thesis
    by (intro conjI) (rule q a b)+
qed

subsection \<open>Delete by id\<close>

lemma deleteUser_error_exits:
  "Exec_delete (Vars r ''id'') db = Inl err \<Longrightarrow> deleteUser w r db = (Exit (Error_text err), db)"
  by (simp add: deleteUser_def log_Fatal_def)

lemma deleteUser_Returned_status:
  "status w = None \<Longrightarrow> fst (deleteUser w r db) = Returned w' \<Longrightarrow> status w' = Some 200"
  by (auto simp: deleteUser_def log_Fatal_def WriteHeader_def StatusOK_def Let_def split: sum.splits)

text \<open>
  Claim C5: a DELETE is answered 200 with an empty body on success, and 500 on a query
  error.

  The first half holds, the second does not: on a query error the handler calls
  \<^verbatim>\<open>log.Fatal(err)\<close>, and the \<^verbatim>\<open>w.WriteHeader(http.StatusInternalServerError)\<close>
  written after it never runs. With the connection gone, or with an id that the server
  cannot read as an integer, the process ends and the client gets no response at all.
  The two lemmas above say so of every error of the statement, and that a response of
  this handler always has status 200.
\<close>

theorem deleteUser_query_error_exits:
  "fst (deleteUser new_writer
          (request ''DELETE'' ''/api/go/users/1'' Malformed\<lparr>vars := [(''id'', ''1'')]\<rparr>) down_db)
     = Exit ''pq: connection refused''
   \<and> fst (serve (request ''DELETE'' ''/api/go/users/1'' Malformed) down_db) = None
   \<and> fst (serve (request ''DELETE'' ''/api/go/users/abc'' Malformed) sample_db) = None
   \<and> fst (serve (request ''DELETE'' ''/api/go/users/1'' Malformed) sample_db)
     = Some \<lparr>code = 200, headers = [], content = []\<rparr>
   \<and> users_table (snd (serve (request ''DELETE'' ''/api/go/users/1'' Malformed) sample_db)) = []"
  by code_simp

subsection \<open>Create\<close>

lemma ServeHTTP_users_POST:
  "path r = ''/api/go/users'' \<Longrightarrow> Method r = ''POST'' \<Longrightarrow>
   ServeHTTP router w r db = createUsers w (r\<lparr>vars := []\<rparr>) db"
  by (simp add: ServeHTTP_def cleanPath_users Match_users_POST)

lemma QueryRow_insert_Inr:
  "QueryRow_insert name email db = Inr (i, db') \<Longrightarrow>
   i = serial db \<and> users_table db' = users_table db @ [(serial db, Some name, Some email)]"
  by (auto simp: QueryRow_insert_def Let_def split: option.splits if_splits)

lemma finish_Encode_fresh:
  "finish (Encode j new_writer) = \<lparr>code = 200, headers = [], content = [JsonDoc j]\<rparr>"
  by (simp add: finish_def Encode_def Write_def WriteHeader_def new_writer_def)

text \<open>
  Claim C6: for every successful POST to \<^verbatim>\<open>/api/go/users\<close> the response JSON carries
  the id that the database generated (the value of the sequence, returned by
  \<^verbatim>\<open>INSERT ... RETURNING id\<close>) together with the submitted name and email; an id in
  the request body never shows in it. The row stored carries the same id and fields.
\<close>

theorem createUsers_returns_generated_id:
  assumes "Method r = ''POST''" and "path r = ''/api/go/users''"
      and "u = fst (Decode (body r) zero_User)"
      and "QueryRow_insert (Name u) (Email u) db = Inr (i, db')"
  shows "serve r db =
           (Some \<lparr>code = 200, headers = [],
                   content = [JsonDoc (JObj [(''id'', JInt i), (''name'', JStr (Name u)),
                                             (''email'', JStr (Email u))])]\<rparr>, db')
       \<and> i = serial db
       \<and> users_table db' = users_table db @ [(serial db, Some (Name u), Some (Email u))]"
proof -
  have c: "createUsers new_writer (r\<lparr>vars := []\<rparr>) db
             = (Returned (Encode (encode_User (u\<lparr>Id_fld := i\<rparr>)) new_writer), db')"
    using assms(3,4) by (simp add: createUsers_def)
  have e: "encode_User (u\<lparr>Id_fld := i\<rparr>)
             = JObj [(''id'', JInt i), (''name'', JStr (Name u)), (''email'', JStr (Email u))]"
    by (simp add: encode_User_def)
  have s: "serve r db =
           (Some \<lparr>code = 200, headers = [],
                   content = [JsonDoc (JObj [(''id'', JInt i), (''name'', JStr (Name u)),
                                             (''email'', JStr (Email u))])]\<rparr>, db')"
    by (simp add: serve_def ServeHTTP_users_POST [OF assms(2,1)] c e finish_Encode_fresh)
  note I = QueryRow_insert_Inr [OF assms(4)]
  from I have g: "i = serial db"
    by (elim conjE)
  from I have t: "users_table db' = users_table db @ [(serial db, Some (Name u), Some (Email u))]"
    by (elim conjE)
  show ?thesis
    by (intro conjI) (rule s g t)+
qed

theorem createUsers_returns_generated_id_witness:
  "Method (request ''POST'' ''/api/go/users''
             (Json (JObj [(''id'', JInt 99), (''name'', JStr ''B''), (''email'', JStr ''b@x.com'')])))
     = ''POST''
   \<and> fst (serve (request ''POST'' ''/api/go/users''
                   (Json (JObj [(''id'', JInt 99), (''name'', JStr ''B''), (''email'', JStr ''b@x.com'')])))
             sample_db)
     = Some \<lparr>code = 200, headers = [],
              content = [JsonDoc (JObj [(''id'', JInt 2), (''name'', JStr ''B''),
                                        (''email'', JStr ''b@x.com'')])]\<rparr>"
proof -
  let ?r = "request ''POST'' ''/api/go/users''
              (Json (JObj [(''id'', JInt 99), (''name'', JStr ''B''), (''email'', JStr ''b@x.com'')]))"
  let ?db = "sample_db\<lparr>serial := 3,
                users_table := [(1, Some ''A'', Some ''a@x.com''), (2, Some ''B'', Some ''b@x.com'')]\<rparr>"
  have m: "Method ?r = ''POST''"
    by (simp add: request_def)
  have p: "path ?r = ''/api/go/users''"
    by (simp add: request_def)
  have d: "fst (Decode (body ?r) zero_User) = \<lparr>Id_fld = 99, Name = ''B'', Email = ''b@x.com''\<rparr>"
    by (simp add: request_def Decode_def store_member_def zero_User_def lower_def fits_int64_def Let_def)
  have q: "QueryRow_insert (Name (fst (Decode (body ?r) zero_User)))
             (Email (fst (Decode (body ?r) zero_User))) sample_db = Inr (2, ?db)"
    unfolding d by (simp add: QueryRow_insert_def sample_db_def)
  from createUsers_returns_generated_id [OF m p refl q]
  have "serve ?r sample_db =
           (Some \<lparr>code = 200, headers = [],
                   content = [JsonDoc (JObj [(''id'', JInt 2),
                     (''name'', JStr (Name (fst (Decode (body ?r) zero_User)))),
                     (''email'', JStr (Email (fst (Decode (body ?r) zero_User))))])]\<rparr>, ?db)"
    by (elim conjE)
  then have s: "fst (serve ?r sample_db)
     = Some \<lparr>code = 200, headers = [],
              content = [JsonDoc (JObj [(''id'', JInt 2), (''name'', JStr ''B''),
                                        (''email'', JStr ''b@x.com'')])]\<rparr>"
    unfolding d by simp
  show ?thesis
    by (intro conjI) (rule m s)+
qed

subsection \<open>The CORS middleware\<close>

lemma cors_header_lookups:
  "map_of (set_key ''Access-Control-Allow-Headers'' ''Content-Type''
            (set_key ''Access-Control-Allow-Methods'' ''GET, PUT, PATCH, POST, DELETE''
              (set_key ''Access-Control-Allow-Origin'' ''*'' hs)))
          ''Access-Control-Allow-Origin'' = Some ''*''"
  "map_of (set_key ''Access-Control-Allow-Headers'' ''Content-Type''
            (set_key ''Access-Control-Allow-Methods'' ''GET, PUT, PATCH, POST, DELETE''
              (set_key ''Access-Control-Allow-Origin'' ''*'' hs)))
          ''Access-Control-Allow-Methods'' = Some ''GET, PUT, PATCH, POST, DELETE''"
  "map_of (set_key ''Access-Control-Allow-Headers'' ''Content-Type''
            (set_key ''Access-Control-Allow-Methods'' ''GET, PUT, PATCH, POST, DELETE''
              (set_key ''Access-Control-Allow-Origin'' ''*'' hs)))
          ''Access-Control-Allow-Headers'' = Some ''Content-Type''"
  by (simp_all add: map_of_set_key_same map_of_set_key_other)

text \<open>
  Claim C7: for every request that passes through the CORS middleware the three
  headers \<^verbatim>\<open>Access-Control-Allow-Origin: *\<close>,
  \<^verbatim>\<open>Access-Control-Allow-Methods: GET, PUT, PATCH, POST, DELETE\<close> and
  \<^verbatim>\<open>Access-Control-Allow-Headers: Content-Type\<close> are set, and every \<^verbatim>\<open>OPTIONS\<close>
  request is answered at once with status 200 and an empty body; the wrapped handler is
  not called for it.

  The writer \<open>w'\<close> is the one the middleware has after setting the headers: it differs
  from \<open>w\<close> in the header map only, and it is what the wrapped handler receives for any
  other method. For \<^verbatim>\<open>OPTIONS\<close> the result does not mention \<open>next\<close>: it is the same for
  every wrapped handler, also for one that would end the process.
\<close>

theorem EnableCORS_headers_and_preflight:
  "(\<exists>w'. map_of (header w') ''Access-Control-Allow-Origin'' = Some ''*''
        \<and> map_of (header w') ''Access-Control-Allow-Methods'' = Some ''GET, PUT, PATCH, POST, DELETE''
        \<and> map_of (header w') ''Access-Control-Allow-Headers'' = Some ''Content-Type''
        \<and> status w' = status w \<and> written w' = written w
        \<and> EnableCORS next w r db =
            (if Method r = ''OPTIONS'' then (Returned (WriteHeader 200 w'), db) else next w' r db))
   \<and> (Method r = ''OPTIONS'' \<longrightarrow>
        EnableCORS next new_writer r db =
          (Returned \<lparr>header = [(''Access-Control-Allow-Origin'', ''*''),
                                (''Access-Control-Allow-Methods'', ''GET, PUT, PATCH, POST, DELETE''),
                                (''Access-Control-Allow-Headers'', ''Content-Type'')],
                      status = Some 200, written = []\<rparr>, db))
   \<and> (Method r = ''OPTIONS'' \<and> path r = ''/'' \<longrightarrow>
        serve r db =
          (Some \<lparr>code = 200,
                  headers = [(''Access-Control-Allow-Origin'', ''*''),
                             (''Access-Control-Allow-Methods'', ''GET, PUT, PATCH, POST, DELETE''),
                             (''Access-Control-Allow-Headers'', ''Content-Type'')],
                  content = []\<rparr>, db))"
proof -
  let ?w = "Header_Set ''Access-Control-Allow-Headers'' ''Content-Type''
             (Header_Set ''Access-Control-Allow-Methods'' ''GET, PUT, PATCH, POST, DELETE''
               (Header_Set ''Access-Control-Allow-Origin'' ''*'' w))"
  have h: "map_of (header ?w) ''Access-Control-Allow-Origin'' = Some ''*''"
          "map_of (header ?w) ''Access-Control-Allow-Methods'' = Some ''GET, PUT, PATCH, POST, DELETE''"
          "map_of (header ?w) ''Access-Control-Allow-Headers'' = Some ''Content-Type''"
    by (simp_all add: Header_Set_def cors_header_lookups)
  have k: "status ?w = status w" "written ?w = written w"
    by (simp_all add: Header_Set_def)
  have e: "EnableCORS next w r db =
            (if Method r = ''OPTIONS'' then (Returned (WriteHeader 200 ?w), db) else next ?w r db)"
    by (simp add: EnableCORS_def StatusOK_def Let_def)
  have a: "\<exists>w'. map_of (header w') ''Access-Control-Allow-Origin'' = Some ''*''
        \<and> map_of (header w') ''Access-Control-Allow-Methods'' = Some ''GET, PUT, PATCH, POST, DELETE''
        \<and> map_of (header w') ''Access-Control-Allow-Headers'' = Some ''Content-Type''
        \<and> status w' = status w \<and> written w' = written w
        \<and> EnableCORS next w r db =
            (if Method r = ''OPTIONS'' then (Returned (WriteHeader 200 w'), db) else next w' r db)"
    by (rule exI [of _ ?w]) (intro conjI h k e)
  have f: "\<And>nxt q. Method q = ''OPTIONS'' \<Longrightarrow>
        EnableCORS nxt new_writer q db =
          (Returned \<lparr>header = [(''Access-Control-Allow-Origin'', ''*''),
                                (''Access-Control-Allow-Methods'', ''GET, PUT, PATCH, POST, DELETE''),
                                (''Access-Control-Allow-Headers'', ''Content-Type'')],
                      status = Some 200, written = []\<rparr>, db)"
    by (simp add: EnableCORS_def StatusOK_def Header_Set_def WriteHeader_def new_writer_def)
  have b: "Method r = ''OPTIONS'' \<longrightarrow>
        EnableCORS next new_writer r db =
          (Returned \<lparr>header = [(''Access-Control-Allow-Origin'', ''*''),
                                (''Access-Control-Allow-Methods'', ''GET, PUT, PATCH, POST, DELETE''),
                                (''Access-Control-Allow-Headers'', ''Content-Type'')],
                      status = Some 200, written = []\<rparr>, db)"
    by (intro impI f)
  have c: "Method r = ''OPTIONS'' \<and> path r = ''/'' \<longrightarrow>
        serve r db =
          (Some \<lparr>code = 200,
                  headers = [(''Access-Control-Allow-Origin'', ''*''),
                             (''Access-Control-Allow-Methods'', ''GET, PUT, PATCH, POST, DELETE''),
                             (''Access-Control-Allow-Headers'', ''Content-Type'')],
                  content = []\<rparr>, db)"
  proof
    assume o: "Method r = ''OPTIONS'' \<and> path r = ''/''"
    then have m: "Method (r\<lparr>vars := []\<rparr>) = ''OPTIONS''"
      by simp
    from o have "ServeHTTP router new_writer r db = EnableCORS homeHandler new_writer (r\<lparr>vars := []\<rparr>) db"
      unfolding router_def by (intro ServeHTTP_first_root) simp
    then show "serve r db =
          (Some \<lparr>code = 200,
                  headers = [(''Access-Control-Allow-Origin'', ''*''),
                             (''Access-Control-Allow-Methods'', ''GET, PUT, PATCH, POST, DELETE''),
                             (''Access-Control-Allow-Headers'', ''Content-Type'')],
                  content = []\<rparr>, db)"
      by (simp add: serve_def f [OF m] finish_def)
  qed
  show ?thesis
    by (intro conjI) (rule a b c)+
qed

theorem EnableCORS_headers_and_preflight_witness:
  "Method (request ''OPTIONS'' ''/'' Malformed) = ''OPTIONS''
   \<and> path (request ''OPTIONS'' ''/'' Malformed) = ''/''
   \<and> fst (EnableCORS fatal_handler new_writer (request ''OPTIONS'' ''/'' Malformed) sample_db)
       = Returned \<lparr>header = [(''Access-Control-Allow-Origin'', ''*''),
                              (''Access-Control-Allow-Methods'', ''GET, PUT, PATCH, POST, DELETE''),
                              (''Access-Control-Allow-Headers'', ''Content-Type'')],
                    status = Some 200, written = []\<rparr>
   \<and> fst (serve (request ''OPTIONS'' ''/'' Malformed) sample_db)
       = Some \<lparr>code = 200,
                headers = [(''Access-Control-Allow-Origin'', ''*''),
                           (''Access-Control-Allow-Methods'', ''GET, PUT, PATCH, POST, DELETE''),
                           (''Access-Control-Allow-Headers'', ''Content-Type'')],
                content = []\<rparr>"
proof -
  let ?r = "request ''OPTIONS'' ''/'' Malformed"
  have m: "Method ?r = ''OPTIONS''"
    by (simp add: request_def)
  have p: "path ?r = ''/''"
    by (simp add: request_def)
  note T = EnableCORS_headers_and_preflight [of new_writer fatal_handler ?r sample_db]
  from T have "Method ?r = ''OPTIONS'' \<longrightarrow>
        EnableCORS fatal_handler new_writer ?r sample_db =
          (Returned \<lparr>header = [(''Access-Control-Allow-Origin'', ''*''),
                                (''Access-Control-Allow-Methods'', ''GET, PUT, PATCH, POST, DELETE''),
                                (''Access-Control-Allow-Headers'', ''Content-Type'')],
                      status = Some 200, written = []\<rparr>, sample_db)"
    by (elim conjE)
  with m have a: "fst (EnableCORS fatal_handler new_writer ?r sample_db)
       = Returned \<lparr>header = [(''Access-Control-Allow-Origin'', ''*''),
                              (''Access-Control-Allow-Methods'', ''GET, PUT, PATCH, POST, DELETE''),
                              (''Access-Control-Allow-Headers'', ''Content-Type'')],
                    status = Some 200, written = []\<rparr>"
    by simp
  from T have "Method ?r = ''OPTIONS'' \<and> path ?r = ''/'' \<longrightarrow>
        serve ?r sample_db =
          (Some \<lparr>code = 200,
                  headers = [(''Access-Control-Allow-Origin'', ''*''),
                             (''Access-Control-Allow-Methods'', ''GET, PUT, PATCH, POST, DELETE''),
                             (''Access-Control-Allow-Headers'', ''Content-Type'')],
                  content = []\<rparr>, sample_db)"
    by (elim conjE)
  with m p have b: "fst (serve ?r sample_db)
       = Some \<lparr>code = 200,
                headers = [(''Access-Control-Allow-Origin'', ''*''),
                           (''Access-Control-Allow-Methods'', ''GET, PUT, PATCH, POST, DELETE''),
                           (''Access-Control-Allow-Headers'', ''Content-Type'')],
                content = []\<rparr>"
    by simp
  show ?thesis
    by (intro conjI) (rule m p a b)+
qed

subsection \<open>Startup\<close>

lemma ListenAndServe_has_Listen: "\<exists>a. Listen a \<in> set (ListenAndServe w)"
  by (simp add: ListenAndServe_def Let_def)

lemma ConnectDatabase_failure:
  "environ w ''DATABASE_URL'' = [] \<or> open_error w \<noteq> None \<or> ping_error w \<noteq> None \<Longrightarrow>
   snd (ConnectDatabase w) = None \<and> terminated (fst (ConnectDatabase w))
   \<and> (\<forall>a. Listen a \<notin> set (fst (ConnectDatabase w)))
   \<and> NewRouter \<notin> set (fst (ConnectDatabase w))
   \<and> CreateTableExec \<notin> set (fst (ConnectDatabase w))"
  by (auto simp: ConnectDatabase_def terminated_def Let_def split: option.splits)

lemma main_without_handle:
  assumes "snd (ConnectDatabase w) = None"
  shows "main w = LoadEnv #
           (case dotenv_error w of
              Some err \<Rightarrow> [Fatal ''Error loading .env file'']
            | None \<Rightarrow> Println ''Backend Service in GoLang'' # fst (ConnectDatabase w))"
proof -
  obtain evs where "ConnectDatabase w = (evs, None)"
    using assms by (cases "ConnectDatabase w") simp
  then show ?thesis
    by (simp add: main_def split: option.splits)
qed

lemma terminated_not_Nil: "terminated evs \<Longrightarrow> evs \<noteq> []"
  by (simp add: terminated_def)

text \<open>
  Claim C8: when the startup \<^verbatim>\<open>CREATE TABLE IF NOT EXISTS\<close> fails, the error is only
  logged and startup goes on to build the router and to listen; any failure of the
  storage handle (no \<^verbatim>\<open>DATABASE_URL\<close>, an error from \<^verbatim>\<open>sql.Open\<close>, an error from
  \<^verbatim>\<open>db.Ping\<close>) ends the process, before the table is created, the router built or a
  listener asked for.
\<close>

theorem CreateTable_failure_is_not_fatal:
  "(dotenv_error w = None \<and> ConnectDatabase w = (evs, Some db) \<and> Exec_create_table db = Some err \<longrightarrow>
      CreateTable db = [CreateTableExec, LogPrint (''Error creating table: '' @ Error_text err)]
      \<and> main w = [LoadEnv, Println ''Backend Service in GoLang''] @ evs @
                 [CreateTableExec, LogPrint (''Error creating table: '' @ Error_text err), NewRouter] @
                 ListenAndServe w
      \<and> (\<exists>a. Listen a \<in> set (main w)))
   \<and> (environ w ''DATABASE_URL'' = [] \<or> open_error w \<noteq> None \<or> ping_error w \<noteq> None \<longrightarrow>
      snd (ConnectDatabase w) = None
      \<and> terminated (main w)
      \<and> (\<forall>a. Listen a \<notin> set (main w))
      \<and> NewRouter \<notin> set (main w)
      \<and> CreateTableExec \<notin> set (main w))"
proof -
  have a: "dotenv_error w = None \<and> ConnectDatabase w = (evs, Some db) \<and> Exec_create_table db = Some err \<longrightarrow>
      CreateTable db = [CreateTableExec, LogPrint (''Error creating table: '' @ Error_text err)]
      \<and> main w = [LoadEnv, Println ''Backend Service in GoLang''] @ evs @
                 [CreateTableExec, LogPrint (''Error creating table: '' @ Error_text err), NewRouter] @
                 ListenAndServe w
      \<and> (\<exists>a. Listen a \<in> set (main w))"
  proof
    assume h: "dotenv_error w = None \<and> ConnectDatabase w = (evs, Some db) \<and> Exec_create_table db = Some err"
    then have c: "CreateTable db = [CreateTableExec, LogPrint (''Error creating table: '' @ Error_text err)]"
      by (simp add: CreateTable_def)
    from h have m: "main w = [LoadEnv, Println ''Backend Service in GoLang''] @ evs @
                 [CreateTableExec, LogPrint (''Error creating table: '' @ Error_text err), NewRouter] @
                 ListenAndServe w"
      by (simp add: main_def c)
    obtain a where "Listen a \<in> set (ListenAndServe w)"
      using ListenAndServe_has_Listen by blast
    then have "Listen a \<in> set (main w)"
      unfolding m by simp
    then have l: "\<exists>a. Listen a \<in> set (main w)"
      by (rule exI)
    show "CreateTable db = [CreateTableExec, LogPrint (''Error creating table: '' @ Error_text err)]
      \<and> main w = [LoadEnv, Println ''Backend Service in GoLang''] @ evs @
                 [CreateTableExec, LogPrint (''Error creating table: '' @ Error_text err), NewRouter] @
                 ListenAndServe w
      \<and> (\<exists>a. Listen a \<in> set (main w))"
      by (intro conjI) (rule c m l)+
  qed
  have b: "environ w ''DATABASE_URL'' = [] \<or> open_error w \<noteq> None \<or> ping_error w \<noteq> None \<longrightarrow>
      snd (ConnectDatabase w) = None
      \<and> terminated (main w)
      \<and> (\<forall>a. Listen a \<notin> set (main w))
      \<and> NewRouter \<notin> set (main w)
      \<and> CreateTableExec \<notin> set (main w)"
  proof
    assume "environ w ''DATABASE_URL'' = [] \<or> open_error w \<noteq> None \<or> ping_error w \<noteq> None"
    note F = ConnectDatabase_failure [OF this]
    from F have n: "snd (ConnectDatabase w) = None"
      by (elim conjE)
    from F have t: "terminated (fst (ConnectDatabase w))"
      by (elim conjE)
    from F have x: "\<forall>a. Listen a \<notin> set (fst (ConnectDatabase w))"
      by (elim conjE)
    from F have y: "NewRouter \<notin> set (fst (ConnectDatabase w))"
      by (elim conjE)
    from F have z: "CreateTableExec \<notin> set (fst (ConnectDatabase w))"
      by (elim conjE)
    note M = main_without_handle [OF n]
    have t': "terminated (main w)"
      unfolding M using t terminated_not_Nil [OF t]
      by (simp add: terminated_def split: option.splits)
    have x': "\<forall>a. Listen a \<notin> set (main w)"
      unfolding M using x by (simp split: option.splits)
    have y': "NewRouter \<notin> set (main w)"
      unfolding M using y by (simp split: option.splits)
    have z': "CreateTableExec \<notin> set (main w)"
      unfolding M using z by (simp split: option.splits)
    show "snd (ConnectDatabase w) = None
      \<and> terminated (main w)
      \<and> (\<forall>a. Listen a \<notin> set (main w))
      \<and> NewRouter \<notin> set (main w)
      \<and> CreateTableExec \<notin> set (main w)"
      by (intro conjI) (rule n t' x' y' z')+
  qed
  show ?thesis
    by (intro conjI) (rule a b)+
qed

theorem CreateTable_failure_is_not_fatal_witness:
  "Exec_create_table (sample_db\<lparr>ddl_fault := Some ''permission denied''\<rparr>)
     = Some (ErrServer ''permission denied'')
   \<and> main ddl_fault_world =
       [LoadEnv, Println ''Backend Service in GoLang'', SqlOpen ''postgres://db/users'', Ping,
        CreateTableExec, LogPrint ''Error creating table: pq: permission denied'', NewRouter,
        LogPrint ''Starting server on port: 9000'', Listen '':9000'']
   \<and> ping_error ping_fault_world = Some ''connection refused''
   \<and> terminated (main ping_fault_world)
   \<and> NewRouter \<notin> set (main ping_fault_world)"
proof -
  let ?db = "sample_db\<lparr>ddl_fault := Some ''permission denied''\<rparr>"
  let ?evs = "[SqlOpen ''postgres://db/users'', Ping]"
  have d: "dotenv_error ddl_fault_world = None"
    by (simp add: ddl_fault_world_def sample_world_def)
  have c: "ConnectDatabase ddl_fault_world = (?evs, Some ?db)"
    by (simp add: ConnectDatabase_def ddl_fault_world_def sample_world_def)
  have e: "Exec_create_table ?db = Some (ErrServer ''permission denied'')"
    by (simp add: Exec_create_table_def sample_db_def)
  have l: "ListenAndServe ddl_fault_world =
             [LogPrint ''Starting server on port: 9000'', Listen '':9000'']"
    by (simp add: ListenAndServe_def ddl_fault_world_def sample_world_def Let_def)
  note T = CreateTable_failure_is_not_fatal
             [of ddl_fault_world ?evs ?db "ErrServer ''permission denied''"]
  from T have "dotenv_error ddl_fault_world = None \<and> ConnectDatabase ddl_fault_world = (?evs, Some ?db)
        \<and> Exec_create_table ?db = Some (ErrServer ''permission denied'') \<longrightarrow>
      CreateTable ?db = [CreateTableExec, LogPrint (''Error creating table: '' @ Error_text (ErrServer ''permission denied''))]
      \<and> main ddl_fault_world = [LoadEnv, Println ''Backend Service in GoLang''] @ ?evs @
                 [CreateTableExec, LogPrint (''Error creating table: '' @ Error_text (ErrServer ''permission denied'')), NewRouter] @
                 ListenAndServe ddl_fault_world
      \<and> (\<exists>a. Listen a \<in> set (main ddl_fault_world))"
    by (elim conjE)
  with d c e have "main ddl_fault_world = [LoadEnv, Println ''Backend Service in GoLang''] @ ?evs @
                 [CreateTableExec, LogPrint (''Error creating table: '' @ Error_text (ErrServer ''permission denied'')), NewRouter] @
                 ListenAndServe ddl_fault_world"
    by blast
  then have m: "main ddl_fault_world =
       [LoadEnv, Println ''Backend Service in GoLang'', SqlOpen ''postgres://db/users'', Ping,
        CreateTableExec, LogPrint ''Error creating table: pq: permission denied'', NewRouter,
        LogPrint ''Starting server on port: 9000'', Listen '':9000'']"
    by (simp add: l Error_text_def)
  have p: "ping_error ping_fault_world = Some ''connection refused''"
    by (simp add: ping_fault_world_def)
  then have q: "environ ping_fault_world ''DATABASE_URL'' = [] \<or> open_error ping_fault_world \<noteq> None
                  \<or> ping_error ping_fault_world \<noteq> None"
    by simp
  note U = CreateTable_failure_is_not_fatal [of ping_fault_world "[]" sample_db ErrNoRows]
  from U have "environ ping_fault_world ''DATABASE_URL'' = [] \<or> open_error ping_fault_world \<noteq> None
                  \<or> ping_error ping_fault_world \<noteq> None \<longrightarrow>
      snd (ConnectDatabase ping_fault_world) = None
      \<and> terminated (main ping_fault_world)
      \<and> (\<forall>a. Listen a \<notin> set (main ping_fault_world))
      \<and> NewRouter \<notin> set (main ping_fault_world)
      \<and> CreateTableExec \<notin> set (main ping_fault_world)"
    by (elim conjE)
  with q have V: "snd (ConnectDatabase ping_fault_world) = None
      \<and> terminated (main ping_fault_world)
      \<and> (\<forall>a. Listen a \<notin> set (main ping_fault_world))
      \<and> NewRouter \<notin> set (main ping_fault_world)
      \<and> CreateTableExec \<notin> set (main ping_fault_world)"
    by (rule_tac mp)
  from V have t: "terminated (main ping_fault_world)"
    by (elim conjE)
  from V have r: "NewRouter \<notin> set (main ping_fault_world)"
    by (elim conjE)
  show ?thesis
    by (intro conjI) (rule e m p t r)+
qed

text \<open>
  Claim C9, as stated, fails: a run with \<^verbatim>\<open>DATABASE_URL\<close> unset does not always end in
  \<^verbatim>\<open>ConnectDatabase\<close>. Where the \<^verbatim>\<open>.env\<close> file cannot be loaded either, the run
  ends at the start of \<^verbatim>\<open>main\<close> with the message about the \<^verbatim>\<open>.env\<close> file:
  \<^verbatim>\<open>ConnectDatabase\<close> is never entered and its configuration error never printed.
\<close>

theorem unset_DATABASE_URL_counterexample:
  "environ no_env_world ''DATABASE_URL'' = []
   \<and> main no_env_world = [LoadEnv, Fatal ''Error loading .env file'']
   \<and> Fatal ''DATABASE_URL is not set in the environment variables'' \<notin> set (main no_env_world)"
  by (simp add: main_def no_env_world_def sample_world_def)

text \<open>
  Claim C9, amended: in every run where \<^verbatim>\<open>DATABASE_URL\<close> is unset, the process
  terminates before the router is built and before \<^verbatim>\<open>ListenAndServe\<close> is reached, so
  no TCP listener is ever bound in such a run. Where the \<^verbatim>\<open>.env\<close> file was loaded,
  the run ends in \<^verbatim>\<open>ConnectDatabase\<close> with the configuration error
  \<^verbatim>\<open>DATABASE_URL is not set in the environment variables\<close>, before any connection is
  opened; where it was not, the run has already ended at the start of \<^verbatim>\<open>main\<close>.
\<close>

theorem unset_DATABASE_URL_never_listens:
  assumes "environ w ''DATABASE_URL'' = []"
  shows "terminated (main w)
       \<and> (\<forall>a. Listen a \<notin> set (main w))
       \<and> NewRouter \<notin> set (main w)
       \<and> ConnectDatabase w = ([Fatal ''DATABASE_URL is not set in the environment variables''], None)
       \<and> (dotenv_error w = None \<longrightarrow>
            main w = [LoadEnv, Println ''Backend Service in GoLang'',
                      Fatal ''DATABASE_URL is not set in the environment variables''])
       \<and> (dotenv_error w \<noteq> None \<longrightarrow> main w = [LoadEnv, Fatal ''Error loading .env file''])"
proof -
  have c: "ConnectDatabase w = ([Fatal ''DATABASE_URL is not set in the environment variables''], None)"
    using assms by (simp add: ConnectDatabase_def)
  have m1: "dotenv_error w = None \<longrightarrow>
            main w = [LoadEnv, Println ''Backend Service in GoLang'',
                      Fatal ''DATABASE_URL is not set in the environment variables'']"
    by (simp add: main_def c)
  have m2: "dotenv_error w \<noteq> None \<longrightarrow> main w = [LoadEnv, Fatal ''Error loading .env file'']"
    by (auto simp: main_def)
  have t: "terminated (main w)"
    using m1 m2 by (cases "dotenv_error w") (simp_all add: terminated_def)
  have l: "\<forall>a. Listen a \<notin> set (main w)"
    using m1 m2 by (cases "dotenv_error w") simp_all
  have n: "NewRouter \<notin> set (main w)"
    using m1 m2 by (cases "dotenv_error w") simp_all
  show ?thesis
    by (intro conjI) (rule t l n c m1 m2)+
qed

theorem unset_DATABASE_URL_never_listens_witness:
  "environ unset_url_world ''DATABASE_URL'' = []
   \<and> dotenv_error unset_url_world = None
   \<and> main unset_url_world =
       [LoadEnv, Println ''Backend Service in GoLang'',
        Fatal ''DATABASE_URL is not set in the environment variables'']
   \<and> Listen '':9000'' \<notin> set (main unset_url_world)"
proof -
  have u: "environ unset_url_world ''DATABASE_URL'' = []"
    by (simp add: unset_url_world_def)
  have d: "dotenv_error unset_url_world = None"
    by (simp add: unset_url_world_def sample_world_def)
  note T = unset_DATABASE_URL_never_listens [OF u]
  from T have "dotenv_error unset_url_world = None \<longrightarrow>
            main unset_url_world = [LoadEnv, Println ''Backend Service in GoLang'',
                      Fatal ''DATABASE_URL is not set in the environment variables'']"
    by (elim conjE)
  with d have m: "main unset_url_world =
       [LoadEnv, Println ''Backend Service in GoLang'',
        Fatal ''DATABASE_URL is not set in the environment variables'']"
    by (rule_tac mp)
  from T have "\<forall>a. Listen a \<notin> set (main unset_url_world)"
    by (elim conjE)
  then have l: "Listen '':9000'' \<notin> set (main unset_url_world)"
    by (rule spec)
  show ?thesis
    by (intro conjI) (rule u d m l)+
qed

text \<open>
  Claim C10: when loading the \<^verbatim>\<open>.env\<close> file fails, the process terminates at the very
  start of \<^verbatim>\<open>main\<close>: the run is the load and the fatal log, with no database step
  and no listener, whatever the environment holds, also when \<^verbatim>\<open>DATABASE_URL\<close> and
  \<^verbatim>\<open>PORT\<close> are set.
\<close>

theorem dotenv_failure_is_fatal_first:
  assumes "dotenv_error w = Some err"
  shows "main w = [LoadEnv, Fatal ''Error loading .env file'']
       \<and> terminated (main w)
       \<and> (\<forall>e \<in> set (main w). \<not> is_db_step e \<and> \<not> is_Listen e)"
proof -
  have m: "main w = [LoadEnv, Fatal ''Error loading .env file'']"
    using assms by (simp add: main_def)
  have t: "terminated (main w)"
    unfolding m by (simp add: terminated_def)
  have s: "\<forall>e \<in> set (main w). \<not> is_db_step e \<and> \<not> is_Listen e"
    unfolding m by (simp add: is_db_step_def is_Listen_def)
  show ?thesis
    by (intro conjI) (rule m t s)+
qed

theorem dotenv_failure_is_fatal_first_witness:
  "dotenv_error dotenv_missing_world = Some ''open .env: no such file or directory''
   \<and> environ dotenv_missing_world ''DATABASE_URL'' = ''postgres://db/users''
   \<and> environ dotenv_missing_world ''PORT'' = ''9000''
   \<and> main dotenv_missing_world = [LoadEnv, Fatal ''Error loading .env file'']"
proof -
  have d: "dotenv_error dotenv_missing_world = Some ''open .env: no such file or directory''"
    by (simp add: dotenv_missing_world_def)
  have u: "environ dotenv_missing_world ''DATABASE_URL'' = ''postgres://db/users''"
    by (simp add: dotenv_missing_world_def sample_world_def)
  have p: "environ dotenv_missing_world ''PORT'' = ''9000''"
    by (simp add: dotenv_missing_world_def sample_world_def)
  from dotenv_failure_is_fatal_first [OF d]
  have m: "main dotenv_missing_world = [LoadEnv, Fatal ''Error loading .env file'']"
    by (elim conjE)
  show ?thesis
    by (intro conjI) (rule d u p m)+
qed

end
